theory Spec2Isabelle
  imports Main "HOL-Library.Word"
begin

section \<open>The AI movement-after-destination rule of the Nullkiller pathfinder\<close>

text \<open>
  This theory embeds \<^verbatim>\<open>AI/Nullkiller/Pathfinding/Rules/AIMovementAfterDestinationRule.cpp\<close>:
  the entry point \<^verbatim>\<open>process\<close> and the four bypass strategies \<^verbatim>\<open>bypassBlocker\<close>,
  \<^verbatim>\<open>bypassRemovableObject\<close>, \<^verbatim>\<open>bypassDestinationGuards\<close> and \<^verbatim>\<open>bypassBattle\<close>.

  Pointers are addresses (natural numbers); a null pointer is \<open>None\<close>. The node storage is
  an explicit store from node addresses to node records, passed in and returned, because
  the C++ mutates nodes through pointers and two pointers may name the same node.
  What the file calls but does not define (node storage queries, the game callback, the
  risk estimates, the blocking classifier, the quest interface) is a field of the record
  \<open>Collaborators\<close>, so every theorem holds for whatever those functions compute. Four
  small helpers with a fixed meaning are written out instead, each marked as such.
\<close>

subsection \<open>Data\<close>

type_synonym int3 = "int \<times> int \<times> int"
type_synonym node_ptr = nat
type_synonym actor_ptr = nat
type_synonym hero_ptr = nat
type_synonym obj_ptr = nat
type_synonym PlayerColor = nat
type_synonym EPathfindingLayer = nat
type_synonym u64 = "64 word"

text \<open>
  The enumerators the source names. \<open>OTHER_REASON\<close> stands for any further enumerator of
  \<^verbatim>\<open>BlockingReason\<close>: the \<^verbatim>\<open>switch\<close> in \<^verbatim>\<open>process\<close> has no \<^verbatim>\<open>default\<close>, so such a value
  leaves \<^verbatim>\<open>allowBypass\<close> at its initial \<^verbatim>\<open>false\<close>.
\<close>

datatype BlockingReason =
  NONE | DESTINATION_GUARDED | DESTINATION_BLOCKVIS | DESTINATION_VISIT | DESTINATION_BLOCKED
  | OTHER_REASON

datatype PlayerRelations = ENEMIES | ALLIES | SAME_PLAYER

text \<open>Of \<^verbatim>\<open>Obj\<close> only three identifiers are tested; \<open>OTHER_OBJ\<close> carries any other one.\<close>

datatype Obj = QUEST_GUARD | BORDERGUARD | BORDER_GATE | OTHER_OBJ nat

text \<open>Of \<^verbatim>\<open>CQuest::Emission\<close> only \<^verbatim>\<open>MISSION_NONE\<close> is tested.\<close>

datatype Emission = MISSION_NONE | MISSION_OTHER nat

record CQuest =
  qid :: nat
  missionType :: Emission

text \<open>
  An object on the map. \<open>quest\<close> is what \<^verbatim>\<open>dynamic_cast<const IQuestObject *>(obj)->quest\<close>
  points to; the source reads it only for the three quest-like identifiers, whose classes
  all implement \<^verbatim>\<open>IQuestObject\<close>.
\<close>

record CGObjectInstance =
  ID :: Obj
  quest :: CQuest

text \<open>\<^verbatim>\<open>QuestInfo(quest, obj, tile)\<close>, and the node's optional special action.\<close>

record QuestInfo =
  qi_quest :: CQuest
  qi_obj :: obj_ptr
  qi_tile :: int3

datatype SpecialAction = NoAction | QuestAction QuestInfo | BattleAction int3

text \<open>The fields of \<^verbatim>\<open>ChainActor\<close> that the rule reads; all three are read-only here.\<close>

record ChainActor =
  armyValue :: u64
  allowBattle :: bool
  battleActor :: actor_ptr

text \<open>
  \<^verbatim>\<open>AIPathNode\<close> (with the fields of \<^verbatim>\<open>CGPathNode\<close> it inherits and the rule touches).
  \<open>armyLoss\<close> and \<open>danger\<close> are \<^verbatim>\<open>uint64_t\<close>.
\<close>

record AIPathNode =
  layer :: EPathfindingLayer
  locked :: bool
  theNodeBefore :: "node_ptr option"
  actor :: actor_ptr
  armyLoss :: u64
  danger :: u64
  specialAction :: SpecialAction

type_synonym storage = "node_ptr \<Rightarrow> AIPathNode"

text \<open>\<^verbatim>\<open>PathNodeInfo\<close> and its extension \<^verbatim>\<open>CDestinationNodeInfo\<close>.\<close>

record PathNodeInfo =
  node :: node_ptr
  coord :: int3
  nodeObject :: "obj_ptr option"
  nodeHero :: "hero_ptr option"
  heroRelations :: PlayerRelations

record CDestinationNodeInfo = PathNodeInfo +
  blocked :: bool

record CPathfinderHelper =
  hero :: hero_ptr

subsection \<open>Collaborators\<close>

text \<open>
  The functions the rule calls and this file does not define. Those that the C++ calls on
  the node storage may read the nodes, so they receive the store. \<open>getOrCreateNode\<close> may
  allocate, and \<open>commit\<close> writes the transition into the destination node, so both return
  the store. \<open>previousNode\<close> is the link that \<^verbatim>\<open>AIPreviousNodeRule::process\<close> leaves
  in the destination node.
\<close>

record Collaborators =
  isMovementIneficient :: "storage \<Rightarrow> PathNodeInfo \<Rightarrow> CDestinationNodeInfo \<Rightarrow> bool"
  isDistanceLimitReached :: "storage \<Rightarrow> PathNodeInfo \<Rightarrow> CDestinationNodeInfo \<Rightarrow> bool"
  getBlockingReason :: "storage \<Rightarrow> PathNodeInfo \<Rightarrow> CDestinationNodeInfo \<Rightarrow> BlockingReason"
  getGuardingCreatures :: "int3 \<Rightarrow> obj_ptr list"
  getOrCreateNode :: "storage \<Rightarrow> int3 \<Rightarrow> EPathfindingLayer \<Rightarrow> actor_ptr \<Rightarrow> node_ptr option \<times> storage"
  getHero :: "storage \<Rightarrow> node_ptr \<Rightarrow> hero_ptr option"
  evaluateDanger :: "int3 \<Rightarrow> hero_ptr option \<Rightarrow> bool \<Rightarrow> u64"
  evaluateArmyLoss :: "hero_ptr option \<Rightarrow> u64 \<Rightarrow> u64 \<Rightarrow> u64"
  commit :: "storage \<Rightarrow> CDestinationNodeInfo \<Rightarrow> PathNodeInfo \<Rightarrow> storage"
  previousNode :: "storage \<Rightarrow> PathNodeInfo \<Rightarrow> CDestinationNodeInfo \<Rightarrow> node_ptr option"
  objects :: "obj_ptr \<Rightarrow> CGObjectInstance"
  actors :: "actor_ptr \<Rightarrow> ChainActor"
  tempOwner :: "hero_ptr \<Rightarrow> PlayerColor"
  wasVisited :: "obj_ptr \<Rightarrow> PlayerColor \<Rightarrow> bool"
  checkQuest :: "obj_ptr \<Rightarrow> hero_ptr \<Rightarrow> bool"
  isObjectRemovable :: "obj_ptr \<Rightarrow> bool"

subsection \<open>Helpers of the repository that are not in this file\<close>

text \<open>Modelled from the spec: \<^verbatim>\<open>AINodeStorage::updateAINode\<close> (a template of
  \<^verbatim>\<open>AINodeStorage.h\<close>), the "scoped in-place update" of one node: it applies the
  callback to the node the pointer names.
\<close>

definition updateAINode :: "storage \<Rightarrow> node_ptr \<Rightarrow> (AIPathNode \<Rightarrow> AIPathNode) \<Rightarrow> storage" where
  "updateAINode st p fn = st(p := fn (st p))"

text \<open>Modelled from the spec: \<^verbatim>\<open>AIPreviousNodeRule::process\<close> (defined in
  \<^verbatim>\<open>AIPreviousNodeRule.cpp\<close>), the "standard predecessor-linking rule": it records the
  back-link of the destination's node and nothing else; which link it records is the
  collaborator \<open>previousNode\<close>.
\<close>

definition AIPreviousNodeRule_process ::
  "Collaborators \<Rightarrow> storage \<Rightarrow> PathNodeInfo \<Rightarrow> CDestinationNodeInfo \<Rightarrow> storage" where
  "AIPreviousNodeRule_process env st source destination =
     st(node destination :=
          (st (node destination))\<lparr>theNodeBefore := previousNode env st source destination\<rparr>)"

text \<open>Modelled from the spec: the \<^verbatim>\<open>vstd\<close> helpers of \<^verbatim>\<open>Global.h\<close>. \<^verbatim>\<open>vstd::contains\<close> is
  membership, \<^verbatim>\<open>vstd::erase_if\<close> removes the elements that satisfy the predicate and
  keeps the order of the others, \<^verbatim>\<open>vstd::amax(a, b)\<close> assigns to \<open>a\<close> the maximum of both.
\<close>

definition contains :: "'a list \<Rightarrow> 'a \<Rightarrow> bool" where
  "contains c i = (i \<in> set c)"

definition erase_if :: "'a list \<Rightarrow> ('a \<Rightarrow> bool) \<Rightarrow> 'a list" where
  "erase_if c pred = filter (\<lambda>x. \<not> pred x) c"

definition amax :: "u64 \<Rightarrow> u64 \<Rightarrow> u64" where
  "amax a b = (if a < b then b else a)"

subsection \<open>bypassBattle\<close>

text \<open>
  Three locals of \<^verbatim>\<open>bypassBattle\<close>, as functions of the store they are computed in, so
  that theorems can name them: \<^verbatim>\<open>actualArmyValue\<close> (line 214, an unsigned 64-bit
  subtraction), \<^verbatim>\<open>danger\<close> (line 213) and \<^verbatim>\<open>loss\<close> (line 215).
\<close>

definition actualArmyValue :: "Collaborators \<Rightarrow> storage \<Rightarrow> PathNodeInfo \<Rightarrow> u64" where
  "actualArmyValue env st source =
     armyValue (actors env (actor (st (node source)))) - armyLoss (st (node source))"

definition battleDanger ::
  "Collaborators \<Rightarrow> storage \<Rightarrow> PathNodeInfo \<Rightarrow> CDestinationNodeInfo \<Rightarrow> u64" where
  "battleDanger env st source destination =
     evaluateDanger env (coord destination) (getHero env st (node source)) True"

definition battleLoss ::
  "Collaborators \<Rightarrow> storage \<Rightarrow> PathNodeInfo \<Rightarrow> CDestinationNodeInfo \<Rightarrow> u64" where
  "battleLoss env st source destination =
     evaluateArmyLoss env (getHero env st (node source))
       (actualArmyValue env st source) (battleDanger env st source destination)"

text \<open>
  The accepted branch (lines 219 to 228), on the battle node \<open>battleNode\<close>: redirect the
  destination, commit, add the loss, raise the danger, link the predecessor, attach the
  battle action. It returns the store and the redirected destination.
\<close>

definition acceptBattle ::
  "Collaborators \<Rightarrow> storage \<Rightarrow> PathNodeInfo \<Rightarrow> CDestinationNodeInfo \<Rightarrow> node_ptr \<Rightarrow> u64 \<Rightarrow> u64
     \<Rightarrow> storage \<times> CDestinationNodeInfo" where
  "acceptBattle env st source destination battleNode loss dangerNew =
     (let destination1 = destination\<lparr>node := battleNode\<rparr>;
          st1 = commit env st destination1 source;
          st2 = st1(battleNode := (st1 battleNode)\<lparr>armyLoss := armyLoss (st1 battleNode) + loss\<rparr>);
          st3 = st2(battleNode := (st2 battleNode)\<lparr>danger := amax (danger (st2 battleNode)) dangerNew\<rparr>);
          st4 = AIPreviousNodeRule_process env st3 source destination1;
          st5 = st4(battleNode := (st4 battleNode)\<lparr>specialAction := BattleAction (coord destination1)\<rparr>)
      in (st5, destination1))"

definition bypassBattle ::
  "Collaborators \<Rightarrow> storage \<Rightarrow> PathNodeInfo \<Rightarrow> CDestinationNodeInfo
     \<Rightarrow> bool \<times> storage \<times> CDestinationNodeInfo" where
  "bypassBattle env st source destination =
     (let destNode = st (node destination)
      in case getOrCreateNode env st (coord destination) (layer (st (node destination)))
                (battleActor (actors env (actor destNode))) of
           (None, stA) \<Rightarrow> (False, stA, destination)
         | (Some battleNode, stA) \<Rightarrow>
             if locked (stA battleNode) then (False, stA, destination)
             else
               let dangerNew = battleDanger env stA source destination;
                   actual = actualArmyValue env stA source;
                   loss = battleLoss env stA source destination
               in if loss < actual
                  then (case acceptBattle env stA source destination battleNode loss dangerNew of
                          (st1, destination1) \<Rightarrow> (True, st1, destination1))
                  else (False, stA, destination))"

subsection \<open>bypassDestinationGuards\<close>

definition bypassDestinationGuards ::
  "Collaborators \<Rightarrow> storage \<Rightarrow> obj_ptr list \<Rightarrow> PathNodeInfo \<Rightarrow> CDestinationNodeInfo
     \<Rightarrow> bool \<times> storage \<times> CDestinationNodeInfo" where
  "bypassDestinationGuards env st destGuardians source destination =
     (let srcGuardians = getGuardingCreatures env (coord source)
      in if destGuardians = [] then (False, st, destination)
         else
           let srcNode = st (node source);
               destGuardians1 = erase_if destGuardians (\<lambda>destGuard. contains srcGuardians destGuard);
               guardsAlreadyBypassed = (destGuardians1 = [] \<and> length srcGuardians \<noteq> 0)
           in if guardsAlreadyBypassed \<and> allowBattle (actors env (actor srcNode))
              then (True, st, destination)
              else bypassBattle env st source destination)"

subsection \<open>bypassRemovableObject\<close>

text \<open>
  The source dereferences \<^verbatim>\<open>destination.nodeObject\<close> without a test; its only caller
  tests it first (line 54). The model answers "no bypass" for a null object, which
  \<open>process\<close> never asks for.
\<close>

definition bypassRemovableObject ::
  "Collaborators \<Rightarrow> CPathfinderHelper \<Rightarrow> storage \<Rightarrow> PathNodeInfo \<Rightarrow> CDestinationNodeInfo
     \<Rightarrow> bool \<times> storage" where
  "bypassRemovableObject env pathfinderHelper st source destination =
     (case nodeObject destination of
        None \<Rightarrow> (False, st)
      | Some obj \<Rightarrow>
          if ID (objects env obj) = QUEST_GUARD
             \<or> ID (objects env obj) = BORDERGUARD
             \<or> ID (objects env obj) = BORDER_GATE
          then
            let questObj = quest (objects env obj);
                nodeHero1 = hero pathfinderHelper
            in if ID (objects env obj) = QUEST_GUARD \<and> missionType questObj = MISSION_NONE
               then (False, st)
               else if \<not> wasVisited env obj (tempOwner env nodeHero1)
                       \<or> \<not> checkQuest env obj nodeHero1
               then (True, updateAINode st (node destination)
                       (\<lambda>n. n\<lparr>specialAction :=
                          QuestAction \<lparr>qi_quest = questObj, qi_obj = obj,
                                       qi_tile = coord destination\<rparr>\<rparr>))
               else (True, st)
          else
            let enemyHero = (nodeHero destination \<noteq> None \<and> heroRelations destination = ENEMIES)
            in if \<not> enemyHero \<and> \<not> isObjectRemovable env obj
               then (if getHero env st (node destination) = nodeHero destination
                     then (True, st) else (False, st))
               else (True, st))"

subsection \<open>bypassBlocker\<close>

definition bypassBlocker ::
  "Collaborators \<Rightarrow> storage \<Rightarrow> PathNodeInfo \<Rightarrow> CDestinationNodeInfo
     \<Rightarrow> bool \<times> storage \<times> CDestinationNodeInfo" where
  "bypassBlocker env st source destination =
     (let enemyHero = (nodeHero destination \<noteq> None \<and> heroRelations destination = ENEMIES)
      in if enemyHero then bypassBattle env st source destination
         else (False, st, destination))"

subsection \<open>process\<close>

text \<open>
  The \<^verbatim>\<open>switch\<close> of lines 46 to 70 with the query of line 43: it computes \<^verbatim>\<open>allowBypass\<close>,
  and with it the store and the destination the strategies leave behind.
\<close>

definition allowBypassFor ::
  "Collaborators \<Rightarrow> CPathfinderHelper \<Rightarrow> storage \<Rightarrow> PathNodeInfo \<Rightarrow> CDestinationNodeInfo
     \<Rightarrow> BlockingReason \<Rightarrow> bool \<times> storage \<times> CDestinationNodeInfo" where
  "allowBypassFor env pathfinderHelper st source destination blocker =
     (let destGuardians = getGuardingCreatures env (coord destination)
      in case blocker of
           DESTINATION_GUARDED \<Rightarrow>
             bypassDestinationGuards env st destGuardians source destination
         | DESTINATION_BLOCKVIS \<Rightarrow>
             (if nodeObject destination \<noteq> None
              then (case bypassRemovableObject env pathfinderHelper st source destination of
                      (allowBypass, st1) \<Rightarrow>
                        if allowBypass \<and> length destGuardians \<noteq> 0
                        then bypassDestinationGuards env st1 destGuardians source destination
                        else (allowBypass, st1, destination))
              else (False, st, destination))
         | DESTINATION_VISIT \<Rightarrow> (True, st, destination)
         | DESTINATION_BLOCKED \<Rightarrow> bypassBlocker env st source destination
         | _ \<Rightarrow> (False, st, destination))"

text \<open>Lines 72 and 73: the final verdict, written into the destination and its node.\<close>

definition finalVerdict ::
  "Collaborators \<Rightarrow> PathNodeInfo \<Rightarrow> bool \<times> storage \<times> CDestinationNodeInfo
     \<Rightarrow> storage \<times> CDestinationNodeInfo" where
  "finalVerdict env source r =
     (case r of (allowBypass, st, destination) \<Rightarrow>
        let destination1 = destination\<lparr>blocked :=
              (\<not> allowBypass \<or> isDistanceLimitReached env st source destination)\<rparr>
        in (st(node destination1 := (st (node destination1))\<lparr>locked := \<not> allowBypass\<rparr>),
            destination1))"

definition process ::
  "Collaborators \<Rightarrow> CPathfinderHelper \<Rightarrow> storage \<Rightarrow> PathNodeInfo \<Rightarrow> CDestinationNodeInfo
     \<Rightarrow> storage \<times> CDestinationNodeInfo" where
  "process env pathfinderHelper st source destination =
     (if isMovementIneficient env st source destination
      then (st(node destination := (st (node destination))\<lparr>locked := True\<rparr>),
            destination\<lparr>blocked := True\<rparr>)
      else
        let blocker = getBlockingReason env st source destination
        in if blocker = NONE then (st, destination)
           else finalVerdict env source
                  (allowBypassFor env pathfinderHelper st source destination blocker))"

subsection \<open>A concrete search situation\<close>

text \<open>
  One edge, from node 0 at \<open>(0, 0, 0)\<close> to node 1 at \<open>(1, 0, 0)\<close>, evaluated for hero 5
  whose army is worth 1000. The destination tile is guarded by object 7; node 2 is the
  battle-variant node; a fight there has danger 400 and costs 300. Object 3 is a quest
  guard without a mission, every other object is an ordinary one that cannot be removed.
  \<open>commit\<close> copies loss and danger from the source node, as a transition carries them
  forward along a path. The variants below change one collaborator each.
\<close>

definition env0 :: Collaborators where
  "env0 = \<lparr>
     isMovementIneficient = (\<lambda>st s d. False),
     isDistanceLimitReached = (\<lambda>st s d. False),
     getBlockingReason = (\<lambda>st s d. DESTINATION_VISIT),
     getGuardingCreatures = (\<lambda>c. if c = (1, 0, 0) then [7] else []),
     getOrCreateNode = (\<lambda>st c l a. (Some 2, st)),
     getHero = (\<lambda>st n. Some 5),
     evaluateDanger = (\<lambda>c h b. 400),
     evaluateArmyLoss = (\<lambda>h a dg. 300),
     commit = (\<lambda>st d s. st(node d := (st (node d))\<lparr>armyLoss := armyLoss (st (node s)),
                                                     danger := danger (st (node s))\<rparr>)),
     previousNode = (\<lambda>st s d. Some (node s)),
     objects = (\<lambda>p. if p = 3
                     then \<lparr>ID = QUEST_GUARD, quest = \<lparr>qid = 0, missionType = MISSION_NONE\<rparr>\<rparr>
                     else \<lparr>ID = OTHER_OBJ 0, quest = \<lparr>qid = 0, missionType = MISSION_NONE\<rparr>\<rparr>),
     actors = (\<lambda>a. \<lparr>armyValue = 1000, allowBattle = True, battleActor = 1\<rparr>),
     tempOwner = (\<lambda>h. 0),
     wasVisited = (\<lambda>p c. False),
     checkQuest = (\<lambda>p h. False),
     isObjectRemovable = (\<lambda>p. False)\<rparr>"

definition nodes0 :: storage where
  "nodes0 = (\<lambda>n. \<lparr>layer = 0, locked = False, theNodeBefore = None, actor = 0,
               armyLoss = 0, danger = 0, specialAction = NoAction\<rparr>)"

definition src0 :: PathNodeInfo where
  "src0 = \<lparr>node = 0, coord = (0, 0, 0), nodeObject = None, nodeHero = None,
           heroRelations = SAME_PLAYER\<rparr>"

definition dst0 :: CDestinationNodeInfo where
  "dst0 = \<lparr>node = 1, coord = (1, 0, 0), nodeObject = None, nodeHero = None,
           heroRelations = SAME_PLAYER, blocked = False\<rparr>"

definition helper0 :: CPathfinderHelper where
  "helper0 = \<lparr>hero = 5\<rparr>"

text \<open>Node storage reports the movement as inefficient.\<close>

definition envI :: Collaborators where
  "envI = env0\<lparr>isMovementIneficient := (\<lambda>st s d. True)\<rparr>"

text \<open>The distance limit is reached.\<close>

definition envD :: Collaborators where
  "envD = env0\<lparr>isDistanceLimitReached := (\<lambda>st s d. True)\<rparr>"

text \<open>The classifier answers \<open>DESTINATION_BLOCKED\<close>.\<close>

definition envB :: Collaborators where
  "envB = env0\<lparr>getBlockingReason := (\<lambda>st s d. DESTINATION_BLOCKED)\<rparr>"

text \<open>Guardians 7 and 8 at the destination, guardians 7, 8 and 9 everywhere else.\<close>

definition envG :: Collaborators where
  "envG = env0\<lparr>getGuardingCreatures := (\<lambda>c. if c = (1, 0, 0) then [7, 8] else [7, 8, 9])\<rparr>"

text \<open>The classifier answers \<open>DESTINATION_GUARDED\<close>.\<close>

definition envR :: Collaborators where
  "envR = env0\<lparr>getBlockingReason := (\<lambda>st s d. DESTINATION_GUARDED)\<rparr>"

text \<open>Node storage records no hero for any node.\<close>

definition envN :: Collaborators where
  "envN = env0\<lparr>getHero := (\<lambda>st n. None)\<rparr>"

text \<open>
  Stores: the destination node locked; the battle node locked; the source node arriving
  with loss 100 and danger 500; the source node with a loss of 1001, one more than the
  army is worth.
\<close>

definition nodesL :: storage where
  "nodesL = nodes0(1 := (nodes0 1)\<lparr>locked := True\<rparr>)"

definition nodesB :: storage where
  "nodesB = nodes0(2 := (nodes0 2)\<lparr>locked := True\<rparr>)"

definition nodesP :: storage where
  "nodesP = nodes0(0 := (nodes0 0)\<lparr>armyLoss := 100, danger := 500\<rparr>)"

definition nodesW :: storage where
  "nodesW = nodes0(0 := (nodes0 0)\<lparr>armyLoss := 1001\<rparr>)"

text \<open>
  Destinations: the quest guard without a mission on the tile; an ordinary object on the
  tile and no hero; the same object with hero 5 standing on the tile.
\<close>

definition dstQ :: CDestinationNodeInfo where
  "dstQ = dst0\<lparr>nodeObject := Some 3\<rparr>"

definition dstO :: CDestinationNodeInfo where
  "dstO = dst0\<lparr>nodeObject := Some 4\<rparr>"

definition dstH :: CDestinationNodeInfo where
  "dstH = dst0\<lparr>nodeObject := Some 4, nodeHero := Some 5\<rparr>"

section \<open>Auxiliary facts\<close>

subsection \<open>A refused bypass leaves the destination as it was\<close>

lemma bypassBattle_refused_dest:
  "\<not> fst (bypassBattle env st s d) \<Longrightarrow> snd (snd (bypassBattle env st s d)) = d"
  by (auto simp: bypassBattle_def Let_def split: option.splits prod.splits if_splits)

lemma bypassDestinationGuards_refused_dest:
  "\<not> fst (bypassDestinationGuards env st g s d)
   \<Longrightarrow> snd (snd (bypassDestinationGuards env st g s d)) = d"
  by (auto simp: bypassDestinationGuards_def Let_def bypassBattle_refused_dest split: if_splits)

lemma bypassBlocker_refused_dest:
  "\<not> fst (bypassBlocker env st s d) \<Longrightarrow> snd (snd (bypassBlocker env st s d)) = d"
  by (auto simp: bypassBlocker_def Let_def bypassBattle_refused_dest split: if_splits)

lemma allowBypassFor_refused_dest:
  "\<not> fst (allowBypassFor env h st s d r) \<Longrightarrow> snd (snd (allowBypassFor env h st s d r)) = d"
  by (cases r)
     (auto simp: allowBypassFor_def Let_def bypassDestinationGuards_refused_dest
        bypassBlocker_refused_dest split: if_splits prod.splits)

subsection \<open>What the final verdict writes\<close>

lemma finalVerdict_locked:
  "locked (fst (finalVerdict env s r) (node (snd (snd r)))) = (\<not> fst r)"
  by (cases r) (simp add: finalVerdict_def Let_def)

lemma finalVerdict_node:
  "node (snd (finalVerdict env s r)) = node (snd (snd r))"
  by (cases r) (simp add: finalVerdict_def Let_def)

subsection \<open>The battle bypass, step by step\<close>

lemma bypassBattle_fst:
  "getOrCreateNode env st (coord d) (layer (st (node d)))
      (battleActor (actors env (actor (st (node d))))) = (bo, stA)
   \<Longrightarrow> fst (bypassBattle env st s d)
       = ((\<exists>b. bo = Some b \<and> \<not> locked (stA b))
          \<and> battleLoss env stA s d < actualArmyValue env stA s)"
  by (auto simp: bypassBattle_def Let_def split: option.splits prod.splits)

lemma bypassBattle_strict_less:
  assumes "getOrCreateNode env st (coord d) (layer (st (node d)))
             (battleActor (actors env (actor (st (node d))))) = (Some b, stA)"
    and "\<not> locked (stA b)"
  shows "fst (bypassBattle env st s d)
           = (evaluateArmyLoss env (getHero env stA (node s))
                (armyValue (actors env (actor (stA (node s)))) - armyLoss (stA (node s)))
                (evaluateDanger env (coord d) (getHero env stA (node s)) True)
              < armyValue (actors env (actor (stA (node s)))) - armyLoss (stA (node s)))"
  using bypassBattle_fst [OF assms(1), of s] assms(2)
  by (simp add: battleLoss_def battleDanger_def actualArmyValue_def)

lemma amax_max: "amax a b = max a b"
  by (auto simp: amax_def max_def)

lemma acceptBattle_result:
  assumes "acceptBattle env stA s d b loss dangerNew = (st5, d1)"
  shows "d1 = d\<lparr>node := b\<rparr>
         \<and> armyLoss (st5 b) = armyLoss (commit env stA (d\<lparr>node := b\<rparr>) s b) + loss
         \<and> danger (st5 b) = max (danger (commit env stA (d\<lparr>node := b\<rparr>) s b)) dangerNew
         \<and> specialAction (st5 b) = BattleAction (coord d)"
  using assms
  by (auto simp: acceptBattle_def AIPreviousNodeRule_process_def Let_def amax_max)

lemma bypassBattle_accepted:
  assumes "bypassBattle env st s d = (True, st', d')"
  shows "\<exists>b stA. getOrCreateNode env st (coord d) (layer (st (node d)))
                   (battleActor (actors env (actor (st (node d))))) = (Some b, stA)
           \<and> acceptBattle env stA s d b (battleLoss env stA s d) (battleDanger env stA s d)
               = (st', d')"
  using assms
  by (auto simp: bypassBattle_def Let_def split: option.splits prod.splits if_splits)

subsection \<open>Locked flags outside the final verdict\<close>

text \<open>
  The strategies themselves never write a locked flag; whether a lock survives them
  depends on \<open>getOrCreateNode\<close> and \<open>commit\<close> only. A successful battle bypass redirects
  to a node that was not locked (line 201).
\<close>

lemma bypassBattle_accepted_node:
  assumes "bypassBattle env st s d = (True, st', d')"
  shows "\<exists>b stA. getOrCreateNode env st (coord d) (layer (st (node d)))
                   (battleActor (actors env (actor (st (node d))))) = (Some b, stA)
           \<and> \<not> locked (stA b) \<and> d' = d\<lparr>node := b\<rparr>"
  using assms
  by (auto simp: bypassBattle_def acceptBattle_def Let_def
        split: option.splits prod.splits if_splits)

lemma acceptBattle_keeps_locked:
  assumes keepC: "\<And>st d s n. locked (st n) \<Longrightarrow> locked (commit env st d s n)"
    and l: "locked (stA n)"
  shows "locked (fst (acceptBattle env stA s d b x y) n)"
  using l keepC [where st = stA and n = n and d = "d\<lparr>node := b\<rparr>" and s = s]
  by (auto simp: acceptBattle_def AIPreviousNodeRule_process_def Let_def)

lemma bypassBattle_keeps_locked:
  assumes keepG: "\<And>st c l a n. locked (st n) \<Longrightarrow> locked (snd (getOrCreateNode env st c l a) n)"
    and keepC: "\<And>st d s n. locked (st n) \<Longrightarrow> locked (commit env st d s n)"
    and l: "locked (st n)"
  shows "locked (fst (snd (bypassBattle env st s d)) n)"
proof -
  obtain bo stA where g:
    "getOrCreateNode env st (coord d) (layer (st (node d)))
       (battleActor (actors env (actor (st (node d))))) = (bo, stA)"
    by (cases "getOrCreateNode env st (coord d) (layer (st (node d)))
                 (battleActor (actors env (actor (st (node d)))))")
  have lA: "locked (stA n)"
    using l g
      keepG [where st = st and n = n and c = "coord d" and l = "layer (st (node d))"
          and a = "battleActor (actors env (actor (st (node d))))"]
    by simp
  have acc: "locked (fst (acceptBattle env stA s d b x y) n)" for b x y
    by (rule acceptBattle_keeps_locked [where stA = stA and n = n, OF keepC lA])
  show ?thesis
    using g lA acc
    by (auto simp: bypassBattle_def Let_def split: option.splits prod.splits)
qed

lemma bypassBattle_allowed_unlocked:
  assumes keepG: "\<And>st c l a n. locked (st n) \<Longrightarrow> locked (snd (getOrCreateNode env st c l a) n)"
    and ok: "fst (bypassBattle env st s d)"
  shows "\<not> locked (st (node (snd (snd (bypassBattle env st s d)))))"
proof -
  from ok have "bypassBattle env st s d
                  = (True, fst (snd (bypassBattle env st s d)), snd (snd (bypassBattle env st s d)))"
    by (metis prod.collapse)
  from bypassBattle_accepted_node [OF this] obtain b stA where
    g: "getOrCreateNode env st (coord d) (layer (st (node d)))
          (battleActor (actors env (actor (st (node d))))) = (Some b, stA)"
    and u: "\<not> locked (stA b)"
    and r: "snd (snd (bypassBattle env st s d)) = d\<lparr>node := b\<rparr>"
    by blast
  have "locked (stA b)" if "locked (st b)"
    using that g
      keepG [where st = st and n = b and c = "coord d" and l = "layer (st (node d))"
          and a = "battleActor (actors env (actor (st (node d))))"]
    by simp
  with u r show ?thesis
    by auto
qed

lemma bypassRemovableObject_locked:
  "locked (snd (bypassRemovableObject env h st s d) n) = locked (st n)"
  by (auto simp: bypassRemovableObject_def updateAINode_def Let_def split: option.splits)

lemma bypassDestinationGuards_keeps_locked:
  assumes keepG: "\<And>st c l a n. locked (st n) \<Longrightarrow> locked (snd (getOrCreateNode env st c l a) n)"
    and keepC: "\<And>st d s n. locked (st n) \<Longrightarrow> locked (commit env st d s n)"
    and l: "locked (st n)"
  shows "locked (fst (snd (bypassDestinationGuards env st g s d)) n)"
  using l bypassBattle_keeps_locked [where st = st and n = n, OF keepG keepC l]
  by (simp add: bypassDestinationGuards_def Let_def)

lemma bypassDestinationGuards_redirect_unlocked:
  assumes keepG: "\<And>st c l a n. locked (st n) \<Longrightarrow> locked (snd (getOrCreateNode env st c l a) n)"
    and ok: "fst (bypassDestinationGuards env st g s d)"
    and mv: "node (snd (snd (bypassDestinationGuards env st g s d))) \<noteq> node d"
  shows "\<not> locked (st (node (snd (snd (bypassDestinationGuards env st g s d)))))"
  using ok mv bypassBattle_allowed_unlocked [OF keepG, of st s d]
  by (auto simp: bypassDestinationGuards_def Let_def split: if_splits)

lemma bypassBlocker_keeps_locked:
  assumes keepG: "\<And>st c l a n. locked (st n) \<Longrightarrow> locked (snd (getOrCreateNode env st c l a) n)"
    and keepC: "\<And>st d s n. locked (st n) \<Longrightarrow> locked (commit env st d s n)"
    and l: "locked (st n)"
  shows "locked (fst (snd (bypassBlocker env st s d)) n)"
  using l bypassBattle_keeps_locked [where st = st and n = n, OF keepG keepC l]
  by (simp add: bypassBlocker_def Let_def)

lemma bypassBlocker_redirect_unlocked:
  assumes keepG: "\<And>st c l a n. locked (st n) \<Longrightarrow> locked (snd (getOrCreateNode env st c l a) n)"
    and ok: "fst (bypassBlocker env st s d)"
  shows "\<not> locked (st (node (snd (snd (bypassBlocker env st s d)))))"
  using ok bypassBattle_allowed_unlocked [OF keepG, of st s d]
  by (auto simp: bypassBlocker_def Let_def split: if_splits)

lemma allowBypassFor_keeps_locked:
  assumes keepG: "\<And>st c l a n. locked (st n) \<Longrightarrow> locked (snd (getOrCreateNode env st c l a) n)"
    and keepC: "\<And>st d s n. locked (st n) \<Longrightarrow> locked (commit env st d s n)"
    and l: "locked (st n)"
  shows "locked (fst (snd (allowBypassFor env h st s d r)) n)"
proof -
  have l1: "locked (snd (bypassRemovableObject env h st s d) n)"
    using l by (simp add: bypassRemovableObject_locked)
  show ?thesis
    using l l1
      bypassDestinationGuards_keeps_locked [where st = st and n = n, OF keepG keepC l]
      bypassDestinationGuards_keeps_locked
        [where st = "snd (bypassRemovableObject env h st s d)" and n = n, OF keepG keepC l1]
      bypassBlocker_keeps_locked [where st = st and n = n, OF keepG keepC l]
    by (cases r) (auto simp: allowBypassFor_def Let_def split: prod.splits)
qed

lemma allowBypassFor_redirect_unlocked:
  assumes keepG: "\<And>st c l a n. locked (st n) \<Longrightarrow> locked (snd (getOrCreateNode env st c l a) n)"
    and ok: "fst (allowBypassFor env h st s d r)"
    and mv: "node (snd (snd (allowBypassFor env h st s d r))) \<noteq> node d"
  shows "\<not> locked (st (node (snd (snd (allowBypassFor env h st s d r)))))"
proof (cases r)
  case DESTINATION_GUARDED
  then show ?thesis
    using ok mv bypassDestinationGuards_redirect_unlocked [OF keepG]
    by (simp add: allowBypassFor_def Let_def)
next
  case DESTINATION_BLOCKVIS
  let ?o = "bypassRemovableObject env h st s d"
  let ?g = "bypassDestinationGuards env (snd ?o)
              (getGuardingCreatures env (coord d)) s d"
  from ok mv DESTINATION_BLOCKVIS have eq: "allowBypassFor env h st s d r = ?g"
    by (auto simp: allowBypassFor_def Let_def split: prod.splits if_splits)
  with ok mv have "\<not> locked (snd ?o (node (snd (snd ?g))))"
    using bypassDestinationGuards_redirect_unlocked [OF keepG, of "snd ?o"] by simp
  then show ?thesis
    by (simp add: eq bypassRemovableObject_locked)
next
  case DESTINATION_BLOCKED
  then show ?thesis
    using ok bypassBlocker_redirect_unlocked [OF keepG]
    by (simp add: allowBypassFor_def Let_def)
qed (use ok mv in \<open>simp_all add: allowBypassFor_def\<close>)

subsection \<open>Guardian lists and unsigned subtraction\<close>

lemma erase_if_contains_set:
  "set (erase_if c (\<lambda>x. contains src x)) = set c - set src"
  by (auto simp: erase_if_def contains_def)

lemma erase_if_contains_empty:
  "(erase_if c (\<lambda>x. contains src x) = []) = (set c \<subseteq> set src)"
  by (auto simp: erase_if_def contains_def filter_empty_conv)

lemma uint_u64_sub:
  "uint (x - y) = (uint x - uint y) mod 2 ^ 64" for x y :: u64
  by (simp add: uint_word_ariths)

lemma uint_u64_sub_wrapped:
  "x < y \<Longrightarrow> uint (x - y) = uint x - uint y + 2 ^ 64" for x y :: u64
  by (simp add: uint_sub_if' word_less_alt)

section \<open>Properties\<close>

subsection \<open>Quest guards without a mission\<close>

text \<open>
  The source answers \<^verbatim>\<open>false\<close> for a quest guard whose quest has no mission (lines 105
  to 108): on the concrete tile with object 3 the removable-object bypass is refused, so
  the tile is not treated as passable.
\<close>

theorem quest_guard_without_mission_refused_example:
  "nodeObject dstQ = Some 3
   \<and> ID (objects env0 3) = QUEST_GUARD
   \<and> missionType (quest (objects env0 3)) = MISSION_NONE
   \<and> \<not> fst (bypassRemovableObject env0 helper0 nodes0 src0 dstQ)"
  by (simp add: dstQ_def dst0_def env0_def bypassRemovableObject_def)

text \<open>
  C1 (as the code has it): when the destination hosts a quest guard whose quest has no
  mission configured, the removable-object bypass is refused (it returns \<open>False\<close>), and
  the node storage is returned as it was, so no special action is attached to the
  destination node.
\<close>

theorem bypassRemovableObject_quest_guard_without_mission:
  assumes "nodeObject d = Some obj"
    and "ID (objects env obj) = QUEST_GUARD"
    and "missionType (quest (objects env obj)) = MISSION_NONE"
  shows "bypassRemovableObject env h st s d = (False, st)"
  using assms by (simp add: bypassRemovableObject_def)

theorem bypassRemovableObject_quest_guard_without_mission_witness:
  "nodeObject dstQ = Some 3
   \<and> ID (objects env0 3) = QUEST_GUARD
   \<and> missionType (quest (objects env0 3)) = MISSION_NONE
   \<and> bypassRemovableObject env0 helper0 nodes0 src0 dstQ = (False, nodes0)
   \<and> specialAction (snd (bypassRemovableObject env0 helper0 nodes0 src0 dstQ) (node dstQ))
       = NoAction"
proof -
  have a: "nodeObject dstQ = Some 3"
    by (simp add: dstQ_def)
  have b: "ID (objects env0 3) = QUEST_GUARD"
    by (simp add: env0_def)
  have c: "missionType (quest (objects env0 3)) = MISSION_NONE"
    by (simp add: env0_def)
  show ?thesis
    using a b c
      bypassRemovableObject_quest_guard_without_mission [OF a b c, of helper0 nodes0 src0]
    by (simp add: nodes0_def)
qed

subsection \<open>The locked flag\<close>

text \<open>
  \<open>process\<close> does not look at the destination node's locked flag. With the blocking
  reason \<open>DESTINATION_VISIT\<close> the bypass is allowed and line 73 writes \<open>locked = false\<close>
  into a node that was locked.
\<close>

theorem process_clears_locked_example:
  "locked (nodesL (node dst0))
   \<and> \<not> locked (fst (process env0 helper0 nodesL src0 dst0) (node dst0))"
  by (simp add: nodesL_def dst0_def env0_def process_def allowBypassFor_def finalVerdict_def)

text \<open>
  C2 (as the code has it): every node whose locked flag is true keeps it through a call
  of \<open>process\<close>, with one exception: when that node is the destination's node as handed
  to \<open>process\<close>, the movement is not inefficient, the blocking reason is not \<open>NONE\<close> and
  the bypass is allowed without redirecting the destination, line 73 writes
  \<open>locked = false\<close> into it. A redirect to the battle node never lands on a node that was
  locked before the call. Both are stated for a node storage whose \<open>getOrCreateNode\<close> and
  \<open>commit\<close> never clear a locked flag.
\<close>

theorem process_keeps_locked_except_destination:
  assumes keepG: "\<And>st c l a n. locked (st n) \<Longrightarrow> locked (snd (getOrCreateNode env st c l a) n)"
    and keepC: "\<And>st d s n. locked (st n) \<Longrightarrow> locked (commit env st d s n)"
    and l: "locked (st n)"
  shows "locked (fst (process env h st s d) n)
           = (\<not> (n = node d
                 \<and> \<not> isMovementIneficient env st s d
                 \<and> getBlockingReason env st s d \<noteq> NONE
                 \<and> fst (allowBypassFor env h st s d (getBlockingReason env st s d))
                 \<and> node (snd (process env h st s d)) = node d))
         \<and> (node (snd (process env h st s d)) \<noteq> node d
              \<longrightarrow> \<not> locked (st (node (snd (process env h st s d)))))"
proof (cases "isMovementIneficient env st s d \<or> getBlockingReason env st s d = NONE")
  case True
  then show ?thesis
    using l by (auto simp: process_def)
next
  case False
  let ?r = "allowBypassFor env h st s d (getBlockingReason env st s d)"
  have p: "process env h st s d = finalVerdict env s ?r"
    using False by (simp add: process_def Let_def)
  have nd: "node (snd (finalVerdict env s ?r)) = node (snd (snd ?r))"
    by (rule finalVerdict_node)
  have k: "locked (fst (snd ?r) n)"
    by (rule allowBypassFor_keeps_locked [where st = st and n = n, OF keepG keepC l])
  have other: "locked (fst (finalVerdict env s ?r) n)" if "n \<noteq> node (snd (snd ?r))"
    using that k by (cases ?r) (simp add: finalVerdict_def Let_def)
  have same: "locked (fst (finalVerdict env s ?r) n) = (\<not> fst ?r)" if "n = node (snd (snd ?r))"
    using that finalVerdict_locked [of env s ?r] by simp
  have refused: "snd (snd ?r) = d" if "\<not> fst ?r"
    using that by (rule allowBypassFor_refused_dest)
  have moved: "\<not> locked (st (node (snd (snd ?r))))"
    if "fst ?r" "node (snd (snd ?r)) \<noteq> node d"
    by (rule allowBypassFor_redirect_unlocked [OF keepG that])
  show ?thesis
  proof (intro conjI impI)
    show "locked (fst (process env h st s d) n)
            = (\<not> (n = node d
                  \<and> \<not> isMovementIneficient env st s d
                  \<and> getBlockingReason env st s d \<noteq> NONE
                  \<and> fst ?r
                  \<and> node (snd (process env h st s d)) = node d))"
      using False l other same moved unfolding p nd by metis
  next
    assume "node (snd (process env h st s d)) \<noteq> node d"
    then show "\<not> locked (st (node (snd (process env h st s d))))"
      using refused moved unfolding p nd by metis
  qed
qed

theorem process_keeps_locked_except_destination_witness:
  "locked (nodesL 1)
   \<and> node dst0 = 1
   \<and> fst (allowBypassFor envR helper0 nodesL src0 dst0 (getBlockingReason envR nodesL src0 dst0))
   \<and> node (snd (process envR helper0 nodesL src0 dst0)) = 2
   \<and> locked (fst (process envR helper0 nodesL src0 dst0) 1)
   \<and> node (snd (process env0 helper0 nodesL src0 dst0)) = 1
   \<and> \<not> locked (fst (process env0 helper0 nodesL src0 dst0) 1)"
proof -
  have kG: "locked (st n) \<Longrightarrow> locked (snd (getOrCreateNode envR st c l a) n)" for st c l a n
    by (simp add: envR_def env0_def)
  have kC: "locked (st n) \<Longrightarrow> locked (commit envR st d s n)" for st d s n
    by (auto simp: envR_def env0_def)
  have kG0: "locked (st n) \<Longrightarrow> locked (snd (getOrCreateNode env0 st c l a) n)" for st c l a n
    by (simp add: env0_def)
  have kC0: "locked (st n) \<Longrightarrow> locked (commit env0 st d s n)" for st d s n
    by (auto simp: env0_def)
  have a: "locked (nodesL 1)"
    by (simp add: nodesL_def)
  have b: "node dst0 = 1"
    by (simp add: dst0_def)
  have c: "fst (allowBypassFor envR helper0 nodesL src0 dst0
                 (getBlockingReason envR nodesL src0 dst0))"
    by (simp add: envR_def env0_def allowBypassFor_def bypassDestinationGuards_def
          bypassBattle_def acceptBattle_def battleLoss_def battleDanger_def
          actualArmyValue_def erase_if_def contains_def nodesL_def nodes0_def src0_def
          dst0_def)
  have e: "node (snd (process envR helper0 nodesL src0 dst0)) = 2"
    by (simp add: process_def finalVerdict_def Let_def envR_def env0_def allowBypassFor_def
          bypassDestinationGuards_def bypassBattle_def acceptBattle_def battleLoss_def
          battleDanger_def actualArmyValue_def erase_if_def contains_def nodesL_def
          nodes0_def src0_def dst0_def)
  have f: "node (snd (process env0 helper0 nodesL src0 dst0)) = 1"
    by (simp add: process_def finalVerdict_def env0_def allowBypassFor_def dst0_def)
  have g: "fst (allowBypassFor env0 helper0 nodesL src0 dst0
                 (getBlockingReason env0 nodesL src0 dst0))"
    by (simp add: env0_def allowBypassFor_def)
  have i: "\<not> isMovementIneficient env0 nodesL src0 dst0"
    "getBlockingReason env0 nodesL src0 dst0 \<noteq> NONE"
    by (simp_all add: env0_def)
  have kept: "locked (fst (process envR helper0 nodesL src0 dst0) 1)"
    using process_keeps_locked_except_destination
        [where env = envR and st = nodesL and n = 1 and h = helper0 and s = src0
        and d = dst0, OF kG kC a] b e
    by simp
  have cleared: "\<not> locked (fst (process env0 helper0 nodesL src0 dst0) 1)"
    using process_keeps_locked_except_destination
        [where env = env0 and st = nodesL and n = 1 and h = helper0 and s = src0
        and d = dst0, OF kG0 kC0 a] b f g i
    by simp
  from a b c e f kept cleared show ?thesis
    by blast
qed

text \<open>
  An edge into a locked node is classified and dispatched like any other: with the
  blocking reason \<open>DESTINATION_VISIT\<close> and the distance limit not reached, the
  destination comes back unblocked.
\<close>

theorem process_locked_node_not_blocked_example:
  "locked (nodesL (node dst0))
   \<and> getBlockingReason env0 nodesL src0 dst0 = DESTINATION_VISIT
   \<and> \<not> blocked (snd (process env0 helper0 nodesL src0 dst0))"
  by (simp add: nodesL_def dst0_def env0_def process_def allowBypassFor_def finalVerdict_def)

text \<open>
  C3 (as the code has it): for a destination node whose locked flag is already true, a
  further evaluation sets blocked to true without classification only when node storage
  reports the movement as inefficient. Otherwise the edge is classified and dispatched
  as for any node: with the reason \<open>NONE\<close> blocked stays as it was, and with any other
  reason blocked becomes (not allowBypass) or (distance limit reached).
\<close>

theorem process_blocked_of_locked_node:
  assumes "locked (st (node d))"
  shows "blocked (snd (process env h st s d))
           = (if isMovementIneficient env st s d then True
              else if getBlockingReason env st s d = NONE then blocked d
              else (case allowBypassFor env h st s d (getBlockingReason env st s d) of
                      (allowBypass, st1, d1) \<Rightarrow>
                        \<not> allowBypass \<or> isDistanceLimitReached env st1 s d1))"
  by (simp add: process_def finalVerdict_def Let_def split: prod.splits)

theorem process_blocked_of_locked_node_witness:
  "locked (nodesL (node dst0))
   \<and> \<not> isMovementIneficient envB nodesL src0 dst0
   \<and> getBlockingReason envB nodesL src0 dst0 = DESTINATION_BLOCKED
   \<and> blocked (snd (process envB helper0 nodesL src0 dst0))"
proof -
  have a: "locked (nodesL (node dst0))"
    by (simp add: nodesL_def dst0_def)
  show ?thesis
    using a
      process_blocked_of_locked_node
        [where st = nodesL and d = dst0 and env = envB and s = src0 and h = helper0, OF a]
    by (simp add: envB_def env0_def dst0_def allowBypassFor_def bypassBlocker_def)
qed

subsection \<open>The battle bypass\<close>

text \<open>
  A loss below the remaining army value is not enough: when the battle-variant node is
  already locked (lines 201 to 210) the bypass is refused before the estimate is even
  computed. Here the loss would be 300 against an army of 1000.
\<close>

theorem bypassBattle_locked_battle_node_example:
  "battleLoss env0 nodesB src0 dst0 < actualArmyValue env0 nodesB src0
   \<and> \<not> fst (bypassBattle env0 nodesB src0 dst0)"
  by (simp add: battleLoss_def actualArmyValue_def bypassBattle_def env0_def nodesB_def
        nodes0_def src0_def dst0_def)

text \<open>
  C4 (as the code has it): a battle bypass succeeds if and only if node storage supplies
  a battle-variant node, that node is not locked, and the estimated army loss is strictly
  less than the source actor's remaining army value (army value minus the loss accumulated
  on the source node). When the estimated loss equals the remaining army value the bypass
  fails.
\<close>

theorem bypassBattle_threshold_iff:
  assumes "getOrCreateNode env st (coord d) (layer (st (node d)))
             (battleActor (actors env (actor (st (node d))))) = (bo, stA)"
  shows "(fst (bypassBattle env st s d)
            \<longleftrightarrow> (\<exists>b. bo = Some b \<and> \<not> locked (stA b))
                \<and> battleLoss env stA s d < actualArmyValue env stA s)
         \<and> (battleLoss env stA s d = actualArmyValue env stA s
              \<longrightarrow> \<not> fst (bypassBattle env st s d))"
  using bypassBattle_fst [OF assms, of s] by auto

theorem bypassBattle_threshold_iff_witness:
  "getOrCreateNode env0 nodes0 (coord dst0) (layer (nodes0 (node dst0)))
     (battleActor (actors env0 (actor (nodes0 (node dst0))))) = (Some 2, nodes0)
   \<and> \<not> locked (nodes0 2)
   \<and> battleLoss env0 nodes0 src0 dst0 = 300
   \<and> actualArmyValue env0 nodes0 src0 = 1000
   \<and> fst (bypassBattle env0 nodes0 src0 dst0)"
proof -
  have a: "getOrCreateNode env0 nodes0 (coord dst0) (layer (nodes0 (node dst0)))
             (battleActor (actors env0 (actor (nodes0 (node dst0))))) = (Some 2, nodes0)"
    by (simp add: env0_def)
  have b: "\<not> locked (nodes0 2)"
    by (simp add: nodes0_def)
  have c: "battleLoss env0 nodes0 src0 dst0 = 300"
    by (simp add: battleLoss_def env0_def)
  have e: "actualArmyValue env0 nodes0 src0 = 1000"
    by (simp add: actualArmyValue_def env0_def nodes0_def)
  show ?thesis
    using a b c e
      bypassBattle_threshold_iff
        [where env = env0 and st = nodes0 and d = dst0 and s = src0, OF a]
    by simp
qed

subsection \<open>The guard bypass\<close>

text \<open>
  C5: the guard bypass fails when the destination has no guardians. Otherwise every
  guardian that is also at the source is removed from the destination's; if none is left,
  the source had a guardian and the actor of the source node has \<open>allowBattle\<close>, the bypass
  succeeds with store and destination untouched, so without a battle bypass. In every
  other case the result is that of the battle bypass.
\<close>

theorem bypassDestinationGuards_cases:
  "bypassDestinationGuards env st destGuardians s d
     = (if destGuardians = [] then (False, st, d)
        else if set destGuardians - set (getGuardingCreatures env (coord s)) = {}
                \<and> getGuardingCreatures env (coord s) \<noteq> []
                \<and> allowBattle (actors env (actor (st (node s))))
             then (True, st, d)
             else bypassBattle env st s d)
   \<and> set (erase_if destGuardians (\<lambda>g. contains (getGuardingCreatures env (coord s)) g))
       = set destGuardians - set (getGuardingCreatures env (coord s))"
  by (simp add: bypassDestinationGuards_def Let_def erase_if_contains_set
        erase_if_contains_empty)

theorem bypassDestinationGuards_cases_witness:
  "bypassDestinationGuards envG nodesB [7, 8] src0 dst0 = (True, nodesB, dst0)
   \<and> \<not> fst (bypassBattle envG nodesB src0 dst0)
   \<and> bypassDestinationGuards envG nodesB [] src0 dst0 = (False, nodesB, dst0)
   \<and> bypassDestinationGuards envG nodesB [7, 10] src0 dst0 = bypassBattle envG nodesB src0 dst0"
  using bypassDestinationGuards_cases [of envG nodesB "[7, 8]" src0 dst0]
    bypassDestinationGuards_cases [of envG nodesB "[]" src0 dst0]
    bypassDestinationGuards_cases [of envG nodesB "[7, 10]" src0 dst0]
  by (simp add: envG_def env0_def src0_def nodesB_def nodes0_def bypassBattle_def dst0_def)

subsection \<open>What an accepted battle leaves behind\<close>

text \<open>
  C6: after a successful battle bypass the destination's node is the battle-variant node;
  the computed loss has been added to that node's accumulated army loss; its danger is
  the maximum of the danger it held and the newly computed danger, never their sum; and
  the battle action at the destination coordinate is attached to it. The values the
  battle node "held" are those it has once \<open>commit\<close> has written the transition, which is
  when lines 222 and 224 read them.
\<close>

theorem bypassBattle_accepted_effects:
  assumes "bypassBattle env st s d = (True, st', d')"
  shows "\<exists>b stA. getOrCreateNode env st (coord d) (layer (st (node d)))
                   (battleActor (actors env (actor (st (node d))))) = (Some b, stA)
           \<and> d' = d\<lparr>node := b\<rparr>
           \<and> armyLoss (st' b)
               = armyLoss (commit env stA (d\<lparr>node := b\<rparr>) s b) + battleLoss env stA s d
           \<and> danger (st' b)
               = max (danger (commit env stA (d\<lparr>node := b\<rparr>) s b)) (battleDanger env stA s d)
           \<and> specialAction (st' b) = BattleAction (coord d)"
proof -
  from bypassBattle_accepted [OF assms] obtain b stA where
    alloc: "getOrCreateNode env st (coord d) (layer (st (node d)))
              (battleActor (actors env (actor (st (node d))))) = (Some b, stA)"
    and acc: "acceptBattle env stA s d b (battleLoss env stA s d) (battleDanger env stA s d)
                = (st', d')"
    by blast
  from acceptBattle_result [OF acc] alloc show ?thesis
    by blast
qed

theorem bypassBattle_accepted_effects_witness:
  "bypassBattle env0 nodesP src0 dst0 = (True, snd (bypassBattle env0 nodesP src0 dst0))
   \<and> node (snd (snd (bypassBattle env0 nodesP src0 dst0))) = 2
   \<and> armyLoss (fst (snd (bypassBattle env0 nodesP src0 dst0)) 2) = 400
   \<and> danger (fst (snd (bypassBattle env0 nodesP src0 dst0)) 2) = 500
   \<and> specialAction (fst (snd (bypassBattle env0 nodesP src0 dst0)) 2) = BattleAction (1, 0, 0)"
proof -
  have a: "bypassBattle env0 nodesP src0 dst0
             = (True, fst (snd (bypassBattle env0 nodesP src0 dst0)),
                snd (snd (bypassBattle env0 nodesP src0 dst0)))"
    by (simp add: bypassBattle_def acceptBattle_def battleLoss_def battleDanger_def
          actualArmyValue_def env0_def nodesP_def nodes0_def src0_def dst0_def)
  show ?thesis
    using a bypassBattle_accepted_effects [OF a]
    by (auto simp: battleLoss_def battleDanger_def actualArmyValue_def env0_def nodesP_def
          nodes0_def src0_def dst0_def)
qed

subsection \<open>The final verdict\<close>

text \<open>
  C7: when an edge evaluation reaches the final verdict (the movement is not inefficient
  and the blocking reason is not \<open>NONE\<close>), the destination's blocked flag becomes
  (not allowBypass) or (distance limit reached), and the locked flag of the destination's
  node becomes (not allowBypass). In particular a bypass that is allowed while the
  distance limit is reached leaves blocked true and locked false.
\<close>

theorem process_final_verdict:
  assumes "\<not> isMovementIneficient env st s d"
    and "getBlockingReason env st s d \<noteq> NONE"
    and "allowBypassFor env h st s d (getBlockingReason env st s d) = (allowBypass, st1, d1)"
  shows "blocked (snd (process env h st s d))
           = (\<not> allowBypass \<or> isDistanceLimitReached env st1 s d1)
         \<and> node (snd (process env h st s d)) = node d1
         \<and> locked (fst (process env h st s d) (node d1)) = (\<not> allowBypass)
         \<and> (allowBypass \<and> isDistanceLimitReached env st1 s d1
              \<longrightarrow> blocked (snd (process env h st s d))
                  \<and> \<not> locked (fst (process env h st s d) (node d1)))"
  using assms by (simp add: process_def finalVerdict_def Let_def)

theorem process_final_verdict_witness:
  "\<not> isMovementIneficient envD nodes0 src0 dst0
   \<and> getBlockingReason envD nodes0 src0 dst0 \<noteq> NONE
   \<and> allowBypassFor envD helper0 nodes0 src0 dst0 (getBlockingReason envD nodes0 src0 dst0)
       = (True, nodes0, dst0)
   \<and> isDistanceLimitReached envD nodes0 src0 dst0
   \<and> blocked (snd (process envD helper0 nodes0 src0 dst0))
   \<and> \<not> locked (fst (process envD helper0 nodes0 src0 dst0) (node dst0))"
proof -
  have a: "\<not> isMovementIneficient envD nodes0 src0 dst0"
    by (simp add: envD_def env0_def)
  have b: "getBlockingReason envD nodes0 src0 dst0 \<noteq> NONE"
    by (simp add: envD_def env0_def)
  have c: "allowBypassFor envD helper0 nodes0 src0 dst0 (getBlockingReason envD nodes0 src0 dst0)
             = (True, nodes0, dst0)"
    by (simp add: envD_def env0_def allowBypassFor_def)
  have e: "isDistanceLimitReached envD nodes0 src0 dst0"
    by (simp add: envD_def)
  show ?thesis
    using a b c e process_final_verdict [OF a b c] by simp
qed

subsection \<open>Objects that are neither quest-like nor removable\<close>

text \<open>
  Line 128 compares two pointers, \<^verbatim>\<open>nodeStorage->getHero(destination.node)\<close> and
  \<^verbatim>\<open>destination.nodeHero\<close>, and two null pointers are equal: when node storage records
  no hero for the destination node and no hero stands on the tile, the bypass succeeds,
  although the recorded hero is not the hero evaluating the move and nobody re-enters a
  tile.
\<close>

theorem bypassRemovableObject_no_hero_example:
  "nodeObject dstO = Some 4
   \<and> ID (objects envN 4) = OTHER_OBJ 0
   \<and> \<not> isObjectRemovable envN 4
   \<and> nodeHero dstO = None
   \<and> getHero envN nodes0 (node dstO) = None
   \<and> getHero envN nodes0 (node dstO) \<noteq> Some (hero helper0)
   \<and> fst (bypassRemovableObject envN helper0 nodes0 src0 dstO)"
  by (simp add: dstO_def dst0_def envN_def env0_def bypassRemovableObject_def)

text \<open>
  C8 (as the code has it): for a destination that is not occupied by an enemy hero and
  whose object is neither quest-guard-like nor removable, the removable-object bypass
  succeeds exactly when the hero that node storage records for the destination node is
  the hero standing on the destination tile, or when no hero is recorded for the node and
  none stands on the tile. Success or not, the node storage is returned as it was, so no
  special action is attached.
\<close>

theorem bypassRemovableObject_plain_object:
  assumes "nodeObject d = Some obj"
    and "ID (objects env obj) \<noteq> QUEST_GUARD"
    and "ID (objects env obj) \<noteq> BORDERGUARD"
    and "ID (objects env obj) \<noteq> BORDER_GATE"
    and "\<not> (nodeHero d \<noteq> None \<and> heroRelations d = ENEMIES)"
    and "\<not> isObjectRemovable env obj"
  shows "bypassRemovableObject env h st s d = (getHero env st (node d) = nodeHero d, st)
         \<and> (fst (bypassRemovableObject env h st s d)
              \<longleftrightarrow> (\<exists>x. getHero env st (node d) = Some x \<and> nodeHero d = Some x)
                  \<or> (getHero env st (node d) = None \<and> nodeHero d = None))"
  using assms by (cases "nodeHero d") (auto simp: bypassRemovableObject_def)

theorem bypassRemovableObject_plain_object_witness:
  "nodeObject dstH = Some 4
   \<and> nodeObject dstO = Some 4
   \<and> ID (objects env0 4) \<noteq> QUEST_GUARD
   \<and> ID (objects env0 4) \<noteq> BORDERGUARD
   \<and> ID (objects env0 4) \<noteq> BORDER_GATE
   \<and> \<not> (nodeHero dstH \<noteq> None \<and> heroRelations dstH = ENEMIES)
   \<and> \<not> (nodeHero dstO \<noteq> None \<and> heroRelations dstO = ENEMIES)
   \<and> \<not> isObjectRemovable env0 4
   \<and> getHero env0 nodes0 (node dstH) = Some 5 \<and> nodeHero dstH = Some 5
   \<and> bypassRemovableObject env0 helper0 nodes0 src0 dstH = (True, nodes0)
   \<and> getHero env0 nodes0 (node dstO) = Some 5 \<and> nodeHero dstO = None
   \<and> bypassRemovableObject env0 helper0 nodes0 src0 dstO = (False, nodes0)"
proof -
  have a: "nodeObject dstH = Some 4" and a': "nodeObject dstO = Some 4"
    by (simp_all add: dstH_def dstO_def)
  have b: "ID (objects env0 4) \<noteq> QUEST_GUARD" "ID (objects env0 4) \<noteq> BORDERGUARD"
    "ID (objects env0 4) \<noteq> BORDER_GATE"
    by (simp_all add: env0_def)
  have c: "\<not> (nodeHero dstH \<noteq> None \<and> heroRelations dstH = ENEMIES)"
    and c': "\<not> (nodeHero dstO \<noteq> None \<and> heroRelations dstO = ENEMIES)"
    by (simp_all add: dstH_def dstO_def dst0_def)
  have e: "\<not> isObjectRemovable env0 4"
    by (simp add: env0_def)
  have f: "getHero env0 nodes0 (node dstH) = Some 5" "nodeHero dstH = Some 5"
    "getHero env0 nodes0 (node dstO) = Some 5" "nodeHero dstO = None"
    by (simp_all add: env0_def dstH_def dstO_def dst0_def)
  have onTile: "bypassRemovableObject env0 helper0 nodes0 src0 dstH = (True, nodes0)"
    using bypassRemovableObject_plain_object [OF a b c e, of helper0 nodes0 src0] f by simp
  have emptyTile: "bypassRemovableObject env0 helper0 nodes0 src0 dstO = (False, nodes0)"
    using bypassRemovableObject_plain_object [OF a' b c' e, of helper0 nodes0 src0] f by simp
  from a a' b c c' e f onTile emptyTile show ?thesis
    by blast
qed

subsection \<open>The inefficiency short-circuit\<close>

text \<open>
  C9: when node storage reports the transition from source to destination as
  inefficient, \<open>process\<close> sets the destination node's locked flag and the destination's
  blocked flag and returns. The result is written without the blocking classifier or any
  bypass strategy: apart from that one flag the store is the one passed in.
\<close>

theorem process_inefficient_locks_and_blocks:
  assumes "isMovementIneficient env st s d"
  shows "process env h st s d
           = (st(node d := (st (node d))\<lparr>locked := True\<rparr>), d\<lparr>blocked := True\<rparr>)
         \<and> locked (fst (process env h st s d) (node d))
         \<and> blocked (snd (process env h st s d))"
  using assms by (simp add: process_def)

theorem process_inefficient_locks_and_blocks_witness:
  "isMovementIneficient envI nodes0 src0 dst0
   \<and> locked (fst (process envI helper0 nodes0 src0 dst0) 1)
   \<and> blocked (snd (process envI helper0 nodes0 src0 dst0))
   \<and> specialAction (fst (process envI helper0 nodes0 src0 dst0) 1) = NoAction"
proof -
  have h: "isMovementIneficient envI nodes0 src0 dst0"
    by (simp add: envI_def)
  show ?thesis
    using h process_inefficient_locks_and_blocks [OF h, of helper0]
    by (simp add: dst0_def nodes0_def)
qed

subsection \<open>The remaining army value wraps around\<close>

text \<open>
  C10: in the battle bypass the remaining army value is the unsigned 64-bit difference of
  the source actor's army value and the loss accumulated on the source node. When the
  loss exceeds the army value the difference wraps modulo \<open>2 ^ 64\<close>, and the strict
  comparison of line 217 is made against the wrapped value, which is also the army value
  handed to the loss estimate.
\<close>

theorem actualArmyValue_wraps:
  "uint (actualArmyValue env st s)
     = (uint (armyValue (actors env (actor (st (node s))))) - uint (armyLoss (st (node s))))
         mod 2 ^ 64
   \<and> (armyValue (actors env (actor (st (node s)))) < armyLoss (st (node s))
        \<longrightarrow> uint (actualArmyValue env st s)
            = uint (armyValue (actors env (actor (st (node s)))))
                - uint (armyLoss (st (node s))) + 2 ^ 64)
   \<and> (getOrCreateNode env st (coord d) (layer (st (node d)))
         (battleActor (actors env (actor (st (node d))))) = (Some b, stA)
       \<and> \<not> locked (stA b)
        \<longrightarrow> fst (bypassBattle env st s d)
            = (evaluateArmyLoss env (getHero env stA (node s))
                 (armyValue (actors env (actor (stA (node s)))) - armyLoss (stA (node s)))
                 (evaluateDanger env (coord d) (getHero env stA (node s)) True)
               < armyValue (actors env (actor (stA (node s)))) - armyLoss (stA (node s))))"
proof (intro conjI impI)
  show "uint (actualArmyValue env st s)
          = (uint (armyValue (actors env (actor (st (node s)))))
               - uint (armyLoss (st (node s)))) mod 2 ^ 64"
    unfolding actualArmyValue_def by (rule uint_u64_sub)
next
  assume "armyValue (actors env (actor (st (node s)))) < armyLoss (st (node s))"
  then show "uint (actualArmyValue env st s)
               = uint (armyValue (actors env (actor (st (node s)))))
                   - uint (armyLoss (st (node s))) + 2 ^ 64"
    unfolding actualArmyValue_def by (rule uint_u64_sub_wrapped)
next
  assume "getOrCreateNode env st (coord d) (layer (st (node d)))
            (battleActor (actors env (actor (st (node d))))) = (Some b, stA)
          \<and> \<not> locked (stA b)"
  then show "fst (bypassBattle env st s d)
            = (evaluateArmyLoss env (getHero env stA (node s))
                 (armyValue (actors env (actor (stA (node s)))) - armyLoss (stA (node s)))
                 (evaluateDanger env (coord d) (getHero env stA (node s)) True)
               < armyValue (actors env (actor (stA (node s)))) - armyLoss (stA (node s)))"
    using bypassBattle_strict_less by blast
qed

theorem actualArmyValue_wraps_witness:
  "armyValue (actors env0 (actor (nodesW (node src0)))) = 1000
   \<and> armyLoss (nodesW (node src0)) = 1001
   \<and> uint (actualArmyValue env0 nodesW src0) = 18446744073709551615
   \<and> getOrCreateNode env0 nodesW (coord dst0) (layer (nodesW (node dst0)))
         (battleActor (actors env0 (actor (nodesW (node dst0))))) = (Some 2, nodesW)
   \<and> \<not> locked (nodesW 2)
   \<and> fst (bypassBattle env0 nodesW src0 dst0)"
proof -
  have a: "armyValue (actors env0 (actor (nodesW (node src0)))) = 1000"
    by (simp add: env0_def)
  have b: "armyLoss (nodesW (node src0)) = 1001"
    by (simp add: nodesW_def src0_def)
  have c: "getOrCreateNode env0 nodesW (coord dst0) (layer (nodesW (node dst0)))
             (battleActor (actors env0 (actor (nodesW (node dst0))))) = (Some 2, nodesW)"
    by (simp add: env0_def)
  have e: "\<not> locked (nodesW 2)"
    by (simp add: nodesW_def nodes0_def)
  have f: "evaluateArmyLoss env0 h v g = 300" for h v g
    by (simp add: env0_def)
  note w = actualArmyValue_wraps [of env0 nodesW src0 dst0 2 nodesW]
  have g: "uint (actualArmyValue env0 nodesW src0) = 18446744073709551615"
    using w unfolding a b by simp
  have k: "fst (bypassBattle env0 nodesW src0 dst0)"
    using w c e unfolding a b f by simp
  from a b c e g k show ?thesis by blast
qed

end
